theory Spec2Isabelle
  imports Complex_Main
begin

section \<open>Python values, result dictionaries and exceptions\<close>

text \<open>
  The service is written in Python. Its scores are Python floats; they are modelled by
  the reals, so every sum and comparison below is exact (rounding is not modelled).
  What the pixel-level routines (OpenCV, numpy, torch, OCR) compute is an input of the
  model: each analyzer takes the numbers those routines return, or the fact that one of
  them raised.
\<close>

datatype py_exception = TypeError | ValidationError | PyException string

text \<open>\<^verbatim>\<open>raise HTTPException(status_code=500, detail=str(e))\<close>\<close>

datatype http_error = HTTPException nat py_exception

text \<open>
  The values stored under the keys \<^verbatim>\<open>spoof_type\<close> and \<^verbatim>\<open>fraud_indicators\<close>:
  \<^verbatim>\<open>None\<close>, a string, or a list of strings.
\<close>

datatype py_value = PyNone | PyStr string | PyList "string list"

text \<open>
  The analyzers return dictionaries. A key that is absent is \<open>None\<close> here; a key that is
  present holds \<open>Some v\<close>. Only the keys read by the fusion step and by the claims are
  kept (\<^verbatim>\<open>metadata\<close>, \<^verbatim>\<open>extracted_data\<close>, \<^verbatim>\<open>embeddings\<close> and the face boxes are
  passed through to the response unchanged and are left out).
\<close>

record result_dict =
  liveness_score :: "real option"
  is_live :: "bool option"
  match_score :: "real option"
  is_match :: "bool option"
  is_valid :: "bool option"
  confidence :: "real option"
  quality_score :: "real option"
  distance :: "real option"
  spoof_type :: "py_value option"
  fraud_indicators :: "py_value option"
  error :: "string option"

definition empty_dict :: result_dict where
  "empty_dict = \<lparr>liveness_score = None, is_live = None, match_score = None,
     is_match = None, is_valid = None, confidence = None, quality_score = None,
     distance = None, spoof_type = None, fraud_indicators = None, error = None\<rparr>"

text \<open>\<^verbatim>\<open>d.get(key, default)\<close>\<close>

definition dict_get :: "'a option \<Rightarrow> 'a \<Rightarrow> 'a" where
  "dict_get field dflt = (case field of None \<Rightarrow> dflt | Some v \<Rightarrow> v)"

text \<open>
  \<^verbatim>\<open>xs.extend(v)\<close>: a list is appended, a string is iterated character by character
  (each character a string of length one), and \<^verbatim>\<open>None\<close> is not iterable.
\<close>

fun list_extend :: "string list \<Rightarrow> py_value \<Rightarrow> py_exception + string list" where
  "list_extend xs (PyList ys) = Inr (xs @ ys)"
| "list_extend xs (PyStr s) = Inr (xs @ map (\<lambda>c. [c]) s)"
| "list_extend xs PyNone = Inl TypeError"

section \<open>The orchestrator and the fusion step (routes.py, verify_kyc)\<close>

text \<open>
  The model starts after the images are downloaded. Each of the three analyzer tasks
  either returned a dictionary (\<open>Inr\<close>) or raised (\<open>Inl\<close>);
  \<^verbatim>\<open>asyncio.gather(..., return_exceptions=True)\<close> hands both to the loop below.
\<close>

definition degraded_result :: result_dict where
  "degraded_result = empty_dict\<lparr>liveness_score := Some 0, is_live := Some False,
     match_score := Some 0, is_match := Some False, is_valid := Some False,
     fraud_indicators := Some (PyList [''verification_failed''])\<rparr>"

fun handle_exception :: "py_exception + result_dict \<Rightarrow> result_dict" where
  "handle_exception (Inl e) = degraded_result"
| "handle_exception (Inr r) = r"

record KYCVerificationResponse =
  resp_liveness_score :: real
  resp_match_score :: real
  resp_fraud_score :: real
  resp_document_quality_score :: real
  resp_overall_score :: real
  resp_status :: string
  resp_reasons :: "string list"
  resp_confidence :: real

text \<open>The pydantic model of the response refuses a float field outside \<open>[0, 1]\<close>.\<close>

definition in_unit :: "real \<Rightarrow> bool" where
  "in_unit x = (0 \<le> x \<and> x \<le> 1)"

definition validate_response ::
  "KYCVerificationResponse \<Rightarrow> py_exception + KYCVerificationResponse" where
  "validate_response r =
     (if in_unit (resp_liveness_score r) \<and> in_unit (resp_match_score r)
         \<and> in_unit (resp_fraud_score r) \<and> in_unit (resp_document_quality_score r)
         \<and> in_unit (resp_overall_score r) \<and> in_unit (resp_confidence r)
      then Inr r else Inl ValidationError)"

definition calc_fraud_score :: "string list \<Rightarrow> real" where
  "calc_fraud_score inds = min (real (length inds) / 10) 1"

definition calc_overall_score :: "real \<Rightarrow> real \<Rightarrow> real \<Rightarrow> real \<Rightarrow> real" where
  "calc_overall_score l m d f = l * 0.3 + m * 0.4 + d * 0.2 + (1 - f) * 0.1"

definition determine_status :: "real \<Rightarrow> real \<Rightarrow> real \<Rightarrow> string" where
  "determine_status overall l m =
     (if overall \<ge> 0.8 \<and> l \<ge> 0.7 \<and> m \<ge> 0.6 then ''approved''
      else if overall \<ge> 0.6 then ''manual_review''
      else ''rejected'')"

text \<open>
  The two \<^verbatim>\<open>extend\<close> calls that build \<^verbatim>\<open>fraud_indicators\<close>; the first exception
  ends the request.
\<close>

definition collect_indicators :: "result_dict \<Rightarrow> result_dict \<Rightarrow> py_exception + string list" where
  "collect_indicators liveness_result document_result =
     (case list_extend [] (dict_get (spoof_type liveness_result) (PyList [])) of
        Inl e \<Rightarrow> Inl e
      | Inr inds \<Rightarrow> list_extend inds (dict_get (fraud_indicators document_result) (PyList [])))"

text \<open>Lines 284 to 338: the scores, the status and the response.\<close>

definition fuse ::
  "result_dict \<Rightarrow> result_dict \<Rightarrow> result_dict \<Rightarrow> py_exception + KYCVerificationResponse" where
  "fuse liveness_result face_match_result document_result =
     (let l = dict_get (liveness_score liveness_result) 0;
          m = dict_get (match_score face_match_result) 0;
          d = dict_get (quality_score document_result) 0
      in case collect_indicators liveness_result document_result of
           Inl e \<Rightarrow> Inl e
         | Inr inds \<Rightarrow>
             (let f = calc_fraud_score inds;
                  overall = calc_overall_score l m d f
              in validate_response
                   \<lparr>resp_liveness_score = l, resp_match_score = m, resp_fraud_score = f,
                    resp_document_quality_score = d, resp_overall_score = overall,
                    resp_status = determine_status overall l m,
                    resp_reasons = inds,
                    resp_confidence = min (dict_get (confidence liveness_result) 0)
                                          (dict_get (confidence face_match_result) 0)\<rparr>))"

text \<open>
  The whole handler: failed tasks are replaced, the rest is fused, and any exception
  raised on the way is turned into a 500 by the outer \<^verbatim>\<open>except Exception\<close>.
\<close>

definition verify_kyc ::
  "py_exception + result_dict \<Rightarrow> py_exception + result_dict \<Rightarrow> py_exception + result_dict
     \<Rightarrow> http_error + KYCVerificationResponse" where
  "verify_kyc liveness_task face_task document_task =
     (case fuse (handle_exception liveness_task) (handle_exception face_task)
                (handle_exception document_task) of
        Inl e \<Rightarrow> Inl (HTTPException 500 e)
      | Inr response \<Rightarrow> Inr response)"

section \<open>Shared helpers\<close>

text \<open>\<^verbatim>\<open>np.mean\<close> and \<^verbatim>\<open>np.var\<close> (the population variance) of a list of floats.\<close>

definition mean :: "real list \<Rightarrow> real" where
  "mean xs = sum_list xs / real (length xs)"

definition np_var :: "real list \<Rightarrow> real" where
  "np_var xs = mean (map (\<lambda>x. (x - mean xs)\<^sup>2) xs)"

text \<open>
  \<^verbatim>\<open>max(iterable, key=f)\<close> on a non-empty iterable: the first element, in iteration
  order, whose key is maximal.
\<close>

fun py_max_from :: "('a \<Rightarrow> 'k::linorder) \<Rightarrow> 'a \<Rightarrow> 'a list \<Rightarrow> 'a" where
  "py_max_from key best [] = best"
| "py_max_from key best (x # xs) = py_max_from key (if key best < key x then x else best) xs"

fun py_max :: "('a \<Rightarrow> 'k::linorder) \<Rightarrow> 'a list \<Rightarrow> 'a option" where
  "py_max key [] = None"
| "py_max key (x # xs) = Some (py_max_from key x xs)"

section \<open>The liveness analyzer (liveness_detection.py)\<close>

type_synonym frame = "nat list"

text \<open>
  What the image routines hand to \<^verbatim>\<open>detect_liveness\<close>: the four detector scores, the
  challenge arguments, whether \<^verbatim>\<open>self.model\<close> is set (the constructor sets it or
  raises), what the network returns (\<open>None\<close>: the inference raised), and the mean absolute
  difference of two frames (\<open>None\<close>: OpenCV raised).
\<close>

record liveness_inputs =
  texture_score :: real
  color_score :: real
  edge_score :: real
  reflection_score :: real
  challenge_type :: "string option"
  temporal_data :: "frame list option"
  mean_absdiff :: "frame \<Rightarrow> frame \<Rightarrow> real option"
  model_loaded :: bool
  model_output :: "real option"

definition detect_blink :: "frame list \<Rightarrow> real" where
  "detect_blink frames =
     (if length frames \<ge> 10
      then min (mean (take (length frames) [0.3, 0.2, 0.1, 0.05, 0.1, 0.2, 0.3, 0.4, 0.5, 0.6])) 1
      else 0.5)"

definition detect_head_turn :: "(frame \<Rightarrow> frame \<Rightarrow> real option) \<Rightarrow> frame list \<Rightarrow> real" where
  "detect_head_turn diff frames =
     (if length frames \<ge> 5
      then (case those (map (\<lambda>(a, b). diff a b) (zip frames (tl frames))) of
              None \<Rightarrow> 0.5
            | Some ds \<Rightarrow>
                (let turn_scores = map (\<lambda>x. x / 255) ds
                 in if turn_scores \<noteq> [] then min (mean turn_scores * 2) 1 else 0.5))
      else 0.5)"

definition detect_smile :: "frame list \<Rightarrow> real" where
  "detect_smile frames =
     (if length frames \<ge> 5
      then min (mean (take (length frames) [0.2, 0.3, 0.4, 0.6, 0.8])) 1
      else 0.5)"

definition analyze_challenge ::
  "(frame \<Rightarrow> frame \<Rightarrow> real option) \<Rightarrow> frame list \<Rightarrow> string \<Rightarrow> real" where
  "analyze_challenge diff frames ctype =
     (if length frames < 2 then 0.5
      else if ctype = ''blink'' then detect_blink frames
      else if ctype = ''head_turn'' then detect_head_turn diff frames
      else if ctype = ''smile'' then detect_smile frames
      else 0.5)"

definition model_based_detection :: "real option \<Rightarrow> real" where
  "model_based_detection out = (case out of None \<Rightarrow> 0.5 | Some live_prob \<Rightarrow> live_prob)"

definition detect_spoof_type :: "real \<Rightarrow> real \<Rightarrow> real \<Rightarrow> real \<Rightarrow> string option" where
  "detect_spoof_type texture color edge reflection =
     (if edge < 0.3 \<and> texture < 0.3 then Some ''printed_photo''
      else if reflection > 0.1 then Some ''screen_replay''
      else if color < 0.3 then Some ''mask''
      else if texture > 0.8 \<and> color > 0.8 then Some ''3d_mask''
      else None)"

definition calculate_confidence :: "real list \<Rightarrow> real" where
  "calculate_confidence scores = max (1 - min (np_var scores * 5) 1) 0"

text \<open>Python truthiness of an optional string and of an optional list.\<close>

definition truthy :: "'a list option \<Rightarrow> bool" where
  "truthy v = (case v of None \<Rightarrow> False | Some xs \<Rightarrow> xs \<noteq> [])"

definition challenge_score_of :: "liveness_inputs \<Rightarrow> real" where
  "challenge_score_of i =
     (if truthy (challenge_type i) \<and> truthy (temporal_data i)
      then analyze_challenge (mean_absdiff i) (the (temporal_data i)) (the (challenge_type i))
      else 0.5)"

definition liveness_scores :: "liveness_inputs \<Rightarrow> real list" where
  "liveness_scores i =
     [texture_score i, color_score i, edge_score i, 1 - reflection_score i,
      challenge_score_of i]"

definition liveness_weights :: "real list" where
  "liveness_weights = [0.25, 0.20, 0.20, 0.15, 0.20]"

definition weighted_sum :: "real list \<Rightarrow> real list \<Rightarrow> real" where
  "weighted_sum scores weights = sum_list (map (\<lambda>(s, w). s * w) (zip scores weights))"

definition combined_liveness_score :: "liveness_inputs \<Rightarrow> real" where
  "combined_liveness_score i =
     (let liveness = weighted_sum (liveness_scores i) liveness_weights
      in if model_loaded i
         then (liveness + model_based_detection (model_output i)) / 2
         else liveness)"

definition py_optional_str :: "string option \<Rightarrow> py_value" where
  "py_optional_str v = (case v of None \<Rightarrow> PyNone | Some s \<Rightarrow> PyStr s)"

text \<open>
  \<open>Inl msg\<close>: a statement of the \<^verbatim>\<open>try\<close> body raised an exception whose text is
  \<open>msg\<close> (the colour conversion of a broken image, for instance).
\<close>

fun detect_liveness :: "string + liveness_inputs \<Rightarrow> result_dict" where
  "detect_liveness (Inl msg) =
     empty_dict\<lparr>liveness_score := Some 0, is_live := Some False, confidence := Some 0,
       error := Some msg\<rparr>"
| "detect_liveness (Inr i) =
     empty_dict\<lparr>liveness_score := Some (combined_liveness_score i),
       is_live := Some (combined_liveness_score i \<ge> 0.7),
       confidence := Some (calculate_confidence (liveness_scores i)),
       spoof_type := Some (py_optional_str
         (detect_spoof_type (texture_score i) (color_score i) (edge_score i)
            (reflection_score i)))\<rparr>"

section \<open>The anti-spoof ensemble (anti_spoof.py)\<close>

text \<open>What one detection method returns.\<close>

record method_result =
  score :: real
  is_spoof :: bool
  type :: string

record spoof_dict =
  as_is_spoof :: bool
  as_spoof_type :: "string option"
  as_confidence :: real
  as_scores :: "real list"
  as_indicators :: "string list"

text \<open>
  \<^verbatim>\<open>max(set(indicators), key=indicators.count)\<close>. A Python set of strings is iterated
  in an order fixed by the hashes of the strings, which differ from one process to the
  next; \<open>set_order\<close> is that order for the run at hand, a list without repetition of the
  elements of \<open>indicators\<close>.
\<close>

definition most_common :: "string list \<Rightarrow> string list \<Rightarrow> string option" where
  "most_common set_order indicators =
     (if indicators \<noteq> [] then py_max (count_list indicators) set_order else None)"

text \<open>
  \<open>results\<close> are the outcomes of the detection methods in the order of
  \<^verbatim>\<open>detection_methods\<close>; the dictionary \<^verbatim>\<open>scores\<close> is keyed by the method names,
  which are distinct, so it holds one score per method.
\<close>

definition detect_spoof :: "string list \<Rightarrow> method_result list \<Rightarrow> spoof_dict" where
  "detect_spoof set_order results =
     (let scores = map score results;
          indicators = map type (filter is_spoof results);
          spoof_score = mean scores
      in \<lparr>as_is_spoof = spoof_score > 0.7,
          as_spoof_type = most_common set_order indicators,
          as_confidence = spoof_score,
          as_scores = scores,
          as_indicators = indicators\<rparr>)"

section \<open>The face-match scorer (face_recognition.py)\<close>

type_synonym embedding = "real list"

record face =
  bbox :: "int list"
  face_quality :: real

text \<open>
  The detected faces of both images, the embedding of a chosen face (\<open>None\<close>: the list
  returned by \<^verbatim>\<open>extract_embeddings\<close> is empty) and \<^verbatim>\<open>compare_faces\<close>.
\<close>

record face_inputs =
  selfie_faces :: "face list"
  id_faces :: "face list"
  selfie_embedding :: "face \<Rightarrow> embedding option"
  id_embedding :: "face \<Rightarrow> embedding option"
  compare_faces :: "embedding \<Rightarrow> embedding \<Rightarrow> real"

definition face_error :: "string \<Rightarrow> result_dict" where
  "face_error msg = empty_dict\<lparr>match_score := Some 0, is_match := Some False,
     confidence := Some 0, error := Some msg\<rparr>"

fun verify_face_match :: "string + face_inputs \<Rightarrow> real \<Rightarrow> result_dict" where
  "verify_face_match (Inl msg) threshold = face_error msg"
| "verify_face_match (Inr i) threshold =
     (case (py_max face_quality (selfie_faces i), py_max face_quality (id_faces i)) of
        (Some selfie_face, Some id_face) \<Rightarrow>
          (case (selfie_embedding i selfie_face, id_embedding i id_face) of
             (Some e1, Some e2) \<Rightarrow>
               (let similarity = compare_faces i e1 e2
                in empty_dict\<lparr>match_score := Some similarity,
                     is_match := Some (similarity \<ge> threshold),
                     confidence := Some (min (face_quality selfie_face) (face_quality id_face)),
                     distance := Some (1 - similarity)\<rparr>)
           | _ \<Rightarrow> face_error ''Failed to extract face embeddings'')
      | _ \<Rightarrow> face_error ''No faces detected in one or both images'')"

section \<open>The document scorer (document_verification.py)\<close>

text \<open>The \<^verbatim>\<open>fields\<close> entries of \<^verbatim>\<open>self.document_patterns\<close>.\<close>

definition document_patterns :: "string \<Rightarrow> string list option" where
  "document_patterns = map_of
     [(''passport'', [''document_number'', ''surname'', ''given_names'', ''nationality'',
                      ''dob'', ''expiry'', ''sex'']),
      (''driver_license'', [''license_number'', ''name'', ''address'', ''dob'', ''expiry'',
                            ''class'']),
      (''id_card'', [''id_number'', ''name'', ''dob'', ''expiry'', ''address''])]"

text \<open>
  A \<^verbatim>\<open>datetime\<close> is a point on the time line, an integer here. \<^verbatim>\<open>_parse_date\<close> is
  built on \<^verbatim>\<open>strptime\<close> and is a parameter: \<open>None\<close> when it raises.
\<close>

type_synonym datetime = int

definition critical_indicators :: "string list" where
  "critical_indicators =
     [''expired_document'', ''missing_document_number'', ''missing_name'',
      ''possible_tampering'']"

definition required_field_missing :: "(string \<rightharpoonup> string) \<Rightarrow> string \<Rightarrow> bool" where
  "required_field_missing extracted_data document_type =
     (case document_patterns document_type of
        None \<Rightarrow> False
      | Some required_fields \<Rightarrow>
          (\<exists>field \<in> set [''name'', ''document_number''].
             field \<in> set required_fields \<and> extracted_data field = None))"

definition future_date_of_birth ::
  "(string \<Rightarrow> datetime option) \<Rightarrow> datetime \<Rightarrow> (string \<rightharpoonup> string) \<Rightarrow> bool" where
  "future_date_of_birth parse_date now extracted_data =
     (case extracted_data ''date_of_birth'' of
        None \<Rightarrow> False
      | Some s \<Rightarrow> (case parse_date s of None \<Rightarrow> False | Some dob \<Rightarrow> dob > now))"

definition validate_document ::
  "(string \<Rightarrow> datetime option) \<Rightarrow> datetime \<Rightarrow> (string \<rightharpoonup> string) \<Rightarrow> string list \<Rightarrow> real
     \<Rightarrow> string \<Rightarrow> bool" where
  "validate_document parse_date now extracted_data indicators quality document_type =
     (if \<exists>indicator \<in> set critical_indicators. indicator \<in> set indicators then False
      else if quality < 0.4 then False
      else if required_field_missing extracted_data document_type then False
      else if future_date_of_birth parse_date now extracted_data then False
      else length indicators \<le> 2)"

text \<open>
  \<^verbatim>\<open>_detect_fraud_indicators\<close>. \<open>image_scores\<close> holds the blur score, the tampering score
  and, when there is a back image, the consistency score; it is \<open>None\<close> when one of those
  routines raised, and the whole list is then replaced.
\<close>

definition detect_fraud_indicators ::
  "(real \<times> real \<times> real option) option \<Rightarrow> (string \<Rightarrow> datetime option) \<Rightarrow> datetime
     \<Rightarrow> (string \<rightharpoonup> string) \<Rightarrow> string \<Rightarrow> string list" where
  "detect_fraud_indicators image_scores parse_date now extracted_data document_type =
     (case image_scores of
        None \<Rightarrow> [''fraud_detection_failed'']
      | Some (blur_score, tampering_score, consistency_score) \<Rightarrow>
          (if blur_score < 0.3 then [''blurry_image''] else [])
          @ concat (map (\<lambda>field.
               if field \<in> set (dict_get (document_patterns document_type) [])
                  \<and> extracted_data field = None
               then [''missing_'' @ field] else [])
             [''name'', ''document_number''])
          @ (case extracted_data ''expiry_date'' of
               None \<Rightarrow> []
             | Some s \<Rightarrow>
                 (case parse_date s of
                    None \<Rightarrow> [''invalid_date_format'']
                  | Some expiry \<Rightarrow> if expiry < now then [''expired_document''] else []))
          @ (if tampering_score > 0.7 then [''possible_tampering''] else [])
          @ (case consistency_score of
               None \<Rightarrow> []
             | Some c \<Rightarrow> if c < 0.5 then [''inconsistent_document_sides''] else []))"

record document_inputs =
  doc_quality :: real
  doc_type :: string
  doc_data :: "string \<rightharpoonup> string"
  doc_image_scores :: "(real \<times> real \<times> real option) option"

fun verify_document ::
  "(string \<Rightarrow> datetime option) \<Rightarrow> datetime \<Rightarrow> string + document_inputs \<Rightarrow> result_dict" where
  "verify_document parse_date now (Inl msg) =
     empty_dict\<lparr>is_valid := Some False, error := Some msg,
       fraud_indicators := Some (PyList [''verification_failed''])\<rparr>"
| "verify_document parse_date now (Inr i) =
     (let indicators = detect_fraud_indicators (doc_image_scores i) parse_date now
                         (doc_data i) (doc_type i)
      in empty_dict\<lparr>quality_score := Some (doc_quality i),
           fraud_indicators := Some (PyList indicators),
           is_valid := Some (validate_document parse_date now (doc_data i) indicators
                               (doc_quality i) (doc_type i))\<rparr>)"

section \<open>Reading a result, the aggregate label of the specification, concrete runs\<close>

text \<open>The indicator list of a result dictionary, empty when the key is absent.\<close>

definition indicators_of :: "result_dict \<Rightarrow> string list" where
  "indicators_of r =
     (case dict_get (fraud_indicators r) (PyList []) of PyList xs \<Rightarrow> xs | _ \<Rightarrow> [])"

text \<open>
  The aggregate label as the specification words it, for comparison with
  \<open>most_common\<close>: the most frequent flagged label, the first one in detector order
  among equally frequent ones, and no label when nothing is flagged.
\<close>

definition spec_aggregate_label :: "string list \<Rightarrow> string option" where
  "spec_aggregate_label indicators =
     (if indicators \<noteq> [] then py_max (count_list indicators) indicators else None)"

text \<open>
  A selfie scored without challenge, as \<^verbatim>\<open>verify_kyc\<close> calls the analyzer, with the
  network loaded and returning 0.5.
\<close>

definition example_inputs :: "real \<Rightarrow> real \<Rightarrow> real \<Rightarrow> real \<Rightarrow> liveness_inputs" where
  "example_inputs texture color edge reflection =
     \<lparr>texture_score = texture, color_score = color, edge_score = edge,
      reflection_score = reflection, challenge_type = None, temporal_data = None,
      mean_absdiff = (\<lambda>a b. None), model_loaded = True, model_output = Some 0.5\<rparr>"

definition example_face_inputs :: face_inputs where
  "example_face_inputs =
     \<lparr>selfie_faces = [\<lparr>bbox = [10, 10, 90, 90], face_quality = 0.9\<rparr>],
      id_faces = [\<lparr>bbox = [20, 20, 60, 60], face_quality = 0.8\<rparr>],
      selfie_embedding = (\<lambda>f. Some [1, 0]),
      id_embedding = (\<lambda>f. Some [1, 0]),
      compare_faces = (\<lambda>a b. 0.75)\<rparr>"

definition example_parse_date :: "string \<Rightarrow> datetime option" where
  "example_parse_date s = (if s = ''01/01/2090'' then Some 20900101 else None)"

definition example_now :: datetime where
  "example_now = 20261104"

definition example_document_inputs :: document_inputs where
  "example_document_inputs =
     \<lparr>doc_quality = 0.9, doc_type = ''id_card'',
      doc_data = [''name'' \<mapsto> ''JANE DOE''],
      doc_image_scores = Some (0.8, 0.1, None)\<rparr>"

definition future_birth_data :: "string \<rightharpoonup> string" where
  "future_birth_data = [''name'' \<mapsto> ''JANE DOE'', ''date_of_birth'' \<mapsto> ''01/01/2090'']"

text \<open>
  The scenario of the specification as the liveness analyzer produces it: detector scores
  without spoof label whose weighted sum is 0.81, and the network score 0.89, so that the
  liveness score is 0.85.
\<close>

definition scenario_inputs :: liveness_inputs where
  "scenario_inputs =
     \<lparr>texture_score = 0.8, color_score = 0.9, edge_score = 0.9, reflection_score = 0,
      challenge_type = None, temporal_data = None, mean_absdiff = (\<lambda>a b. None),
      model_loaded = True, model_output = Some 0.89\<rparr>"

text \<open>
  The five anti-spoof methods when each of them fails (the \<^verbatim>\<open>except\<close> branches), and a
  run in which the first two flag a spoof.
\<close>

definition fallback_results :: "method_result list" where
  "fallback_results =
     [\<lparr>score = 0, is_spoof = False, type = ''printed_photo''\<rparr>,
      \<lparr>score = 0, is_spoof = False, type = ''screen_replay''\<rparr>,
      \<lparr>score = 0, is_spoof = False, type = ''mask''\<rparr>,
      \<lparr>score = 0, is_spoof = False, type = ''3d_mask''\<rparr>,
      \<lparr>score = 0, is_spoof = False, type = ''photo_manipulation''\<rparr>]"

definition flagged_results :: "method_result list" where
  "flagged_results =
     [\<lparr>score = 0.7, is_spoof = True, type = ''printed_photo''\<rparr>,
      \<lparr>score = 0.6, is_spoof = True, type = ''screen_replay''\<rparr>,
      \<lparr>score = 0.1, is_spoof = False, type = ''mask''\<rparr>,
      \<lparr>score = 0.1, is_spoof = False, type = ''3d_mask''\<rparr>,
      \<lparr>score = 0.2, is_spoof = False, type = ''photo_manipulation''\<rparr>]"

section \<open>Lemmas on the fusion step\<close>

lemma fuse_response:
  assumes "fuse lr fr dr = Inr resp"
  shows "\<exists>inds. collect_indicators lr dr = Inr inds
     \<and> resp = \<lparr>resp_liveness_score = dict_get (liveness_score lr) 0,
          resp_match_score = dict_get (match_score fr) 0,
          resp_fraud_score = calc_fraud_score inds,
          resp_document_quality_score = dict_get (quality_score dr) 0,
          resp_overall_score = calc_overall_score (dict_get (liveness_score lr) 0)
             (dict_get (match_score fr) 0) (dict_get (quality_score dr) 0)
             (calc_fraud_score inds),
          resp_status = determine_status
             (calc_overall_score (dict_get (liveness_score lr) 0)
                (dict_get (match_score fr) 0) (dict_get (quality_score dr) 0)
                (calc_fraud_score inds))
             (dict_get (liveness_score lr) 0) (dict_get (match_score fr) 0),
          resp_reasons = inds,
          resp_confidence = min (dict_get (confidence lr) 0) (dict_get (confidence fr) 0)\<rparr>"
  using assms
  by (auto simp: fuse_def Let_def validate_response_def split: sum.splits if_splits)

lemma determine_status_cases:
  "(determine_status ov l m = ''approved'' \<longleftrightarrow> ov \<ge> 0.8 \<and> l \<ge> 0.7 \<and> m \<ge> 0.6)
   \<and> (determine_status ov l m = ''manual_review'' \<longleftrightarrow>
          \<not> (ov \<ge> 0.8 \<and> l \<ge> 0.7 \<and> m \<ge> 0.6) \<and> ov \<ge> 0.6)
   \<and> (determine_status ov l m = ''rejected'' \<longleftrightarrow>
          \<not> (ov \<ge> 0.8 \<and> l \<ge> 0.7 \<and> m \<ge> 0.6) \<and> ov < 0.6)"
  by (simp add: determine_status_def)

text \<open>
  The fusion step returns a response as soon as both \<^verbatim>\<open>extend\<close> calls succeed and the
  scores it reads lie in the unit interval.
\<close>

lemma fuse_returns:
  assumes "collect_indicators lr dr = Inr inds"
    and "in_unit (dict_get (liveness_score lr) 0)" and "in_unit (dict_get (match_score fr) 0)"
    and "in_unit (dict_get (quality_score dr) 0)"
    and "in_unit (min (dict_get (confidence lr) 0) (dict_get (confidence fr) 0))"
  shows "\<exists>resp. fuse lr fr dr = Inr resp \<and> resp_reasons resp = inds
     \<and> resp_fraud_score resp = calc_fraud_score inds"
proof -
  let ?f = "calc_fraud_score inds"
  have f: "in_unit ?f"
    by (simp add: in_unit_def calc_fraud_score_def)
  have b: "0 \<le> dict_get (liveness_score lr) 0" "dict_get (liveness_score lr) 0 \<le> 1"
    "0 \<le> dict_get (match_score fr) 0" "dict_get (match_score fr) 0 \<le> 1"
    "0 \<le> dict_get (quality_score dr) 0" "dict_get (quality_score dr) 0 \<le> 1"
    "0 \<le> ?f" "?f \<le> 1"
    using assms(2-4) f by (simp_all add: in_unit_def)
  have "in_unit (calc_overall_score (dict_get (liveness_score lr) 0)
      (dict_get (match_score fr) 0) (dict_get (quality_score dr) 0) ?f)"
    unfolding in_unit_def calc_overall_score_def using b by argo
  then show ?thesis
    using assms f by (simp add: fuse_def Let_def validate_response_def)
qed

text \<open>
  Whenever both \<^verbatim>\<open>extend\<close> calls succeed on results whose scores lie in the unit
  interval, a response is produced, its overall score is the weighted sum of lines 296 to
  301 and its status is decided as in lines 304 to 309.
\<close>

lemma fuse_overall_score_and_status:
  assumes "collect_indicators lr dr = Inr inds"
    and "in_unit (dict_get (liveness_score lr) 0)" and "in_unit (dict_get (match_score fr) 0)"
    and "in_unit (dict_get (quality_score dr) 0)"
    and "in_unit (min (dict_get (confidence lr) 0) (dict_get (confidence fr) 0))"
  shows "\<exists>resp. fuse lr fr dr = Inr resp
     \<and> resp_liveness_score resp = dict_get (liveness_score lr) 0
     \<and> resp_match_score resp = dict_get (match_score fr) 0
     \<and> resp_document_quality_score resp = dict_get (quality_score dr) 0
     \<and> resp_fraud_score resp = min (real (length inds) / 10) 1
     \<and> resp_overall_score resp =
          0.3 * resp_liveness_score resp + 0.4 * resp_match_score resp
          + 0.2 * resp_document_quality_score resp + 0.1 * (1 - resp_fraud_score resp)
     \<and> (resp_status resp = ''approved'' \<longleftrightarrow>
          resp_overall_score resp \<ge> 0.8 \<and> resp_liveness_score resp \<ge> 0.7
          \<and> resp_match_score resp \<ge> 0.6)
     \<and> (resp_status resp = ''manual_review'' \<longleftrightarrow>
          \<not> (resp_overall_score resp \<ge> 0.8 \<and> resp_liveness_score resp \<ge> 0.7
              \<and> resp_match_score resp \<ge> 0.6)
          \<and> resp_overall_score resp \<ge> 0.6)
     \<and> (resp_status resp = ''rejected'' \<longleftrightarrow>
          \<not> (resp_overall_score resp \<ge> 0.8 \<and> resp_liveness_score resp \<ge> 0.7
              \<and> resp_match_score resp \<ge> 0.6)
          \<and> resp_overall_score resp < 0.6)"
proof -
  from fuse_returns [OF assms] obtain resp where f: "fuse lr fr dr = Inr resp"
    by blast
  from fuse_response [OF f] assms(1) have
    r: "resp = \<lparr>resp_liveness_score = dict_get (liveness_score lr) 0,
          resp_match_score = dict_get (match_score fr) 0,
          resp_fraud_score = calc_fraud_score inds,
          resp_document_quality_score = dict_get (quality_score dr) 0,
          resp_overall_score = calc_overall_score (dict_get (liveness_score lr) 0)
             (dict_get (match_score fr) 0) (dict_get (quality_score dr) 0)
             (calc_fraud_score inds),
          resp_status = determine_status
             (calc_overall_score (dict_get (liveness_score lr) 0)
                (dict_get (match_score fr) 0) (dict_get (quality_score dr) 0)
                (calc_fraud_score inds))
             (dict_get (liveness_score lr) 0) (dict_get (match_score fr) 0),
          resp_reasons = inds,
          resp_confidence = min (dict_get (confidence lr) 0) (dict_get (confidence fr) 0)\<rparr>"
    by auto
  have ov: "resp_overall_score resp =
          0.3 * resp_liveness_score resp + 0.4 * resp_match_score resp
          + 0.2 * resp_document_quality_score resp + 0.1 * (1 - resp_fraud_score resp)"
    by (simp add: r calc_overall_score_def)
  have st: "resp_status resp = determine_status (resp_overall_score resp)
              (resp_liveness_score resp) (resp_match_score resp)"
    by (simp add: r)
  have fr: "resp_fraud_score resp = min (real (length inds) / 10) 1"
    by (simp add: r calc_fraud_score_def)
  have "resp_liveness_score resp = dict_get (liveness_score lr) 0
     \<and> resp_match_score resp = dict_get (match_score fr) 0
     \<and> resp_document_quality_score resp = dict_get (quality_score dr) 0"
    by (simp add: r)
  with f ov fr determine_status_cases [of "resp_overall_score resp"
        "resp_liveness_score resp" "resp_match_score resp"]
  show ?thesis
    unfolding st [symmetric] by blast
qed

section \<open>Concrete analyzer results\<close>

lemma example_document_result:
  "verify_document example_parse_date example_now (Inr example_document_inputs) =
     empty_dict\<lparr>quality_score := Some 0.9, fraud_indicators := Some (PyList []),
       is_valid := Some True\<rparr>"
  by (simp add: example_document_inputs_def detect_fraud_indicators_def dict_get_def
      document_patterns_def validate_document_def critical_indicators_def
      required_field_missing_def future_date_of_birth_def Let_def)

lemma example_face_result:
  "verify_face_match (Inr example_face_inputs) 0.6 =
     empty_dict\<lparr>match_score := Some 0.75, is_match := Some True, confidence := Some 0.8,
       distance := Some 0.25\<rparr>"
  by (simp add: example_face_inputs_def Let_def)

lemma example_mask_result:
  "detect_liveness (Inr (example_inputs 0.5 0.2 0.5 0.05)) =
     empty_dict\<lparr>liveness_score := Some 0.50375, is_live := Some False,
       confidence := Some 0.712, spoof_type := Some (PyStr ''mask'')\<rparr>"
  by (simp add: example_inputs_def combined_liveness_score_def weighted_sum_def
      liveness_scores_def liveness_weights_def challenge_score_of_def truthy_def
      model_based_detection_def calculate_confidence_def np_var_def mean_def
      detect_spoof_type_def py_optional_str_def power2_eq_square Let_def)

lemma example_live_result:
  "detect_liveness (Inr (example_inputs 0.9 0.7 0.9 0.05)) =
     empty_dict\<lparr>liveness_score := Some 0.64375, is_live := Some False,
       confidence := Some 0.858, spoof_type := Some PyNone\<rparr>"
  by (simp add: example_inputs_def combined_liveness_score_def weighted_sum_def
      liveness_scores_def liveness_weights_def challenge_score_of_def truthy_def
      model_based_detection_def calculate_confidence_def np_var_def mean_def
      detect_spoof_type_def py_optional_str_def power2_eq_square Let_def)

lemma scenario_liveness_result:
  "detect_liveness (Inr scenario_inputs) =
     empty_dict\<lparr>liveness_score := Some 0.85, is_live := Some True,
       confidence := Some 0.852, spoof_type := Some PyNone\<rparr>"
  by (simp add: scenario_inputs_def combined_liveness_score_def weighted_sum_def
      liveness_scores_def liveness_weights_def challenge_score_of_def truthy_def
      model_based_detection_def calculate_confidence_def np_var_def mean_def
      detect_spoof_type_def py_optional_str_def power2_eq_square Let_def)

section \<open>The fusion step: claims C1, C3, C4 and C5\<close>

text \<open>
  Claim C1, at the scenario of the specification as the analyzers produce it: liveness
  score 0.85 without spoof label, match score 0.75, document quality 0.9 and no
  document indicator, hence no indicator at all and the fraud score 0. The claim gives
  the overall score \<open>0.3 * 0.85 + 0.4 * 0.75 + 0.2 * 0.9 + 0.1 * 1 = 0.835\<close> and the
  status \<open>approved\<close>, and the two functions of the handler compute exactly that. The
  handler does not reach them: \<^verbatim>\<open>spoof_type\<close> is \<^verbatim>\<open>None\<close>, the first
  \<^verbatim>\<open>extend\<close> raises and the request ends with the error 500.
\<close>

theorem C1_scenario_request_fails:
  "liveness_score (detect_liveness (Inr scenario_inputs)) = Some 0.85
   \<and> spoof_type (detect_liveness (Inr scenario_inputs)) = Some PyNone
   \<and> match_score (verify_face_match (Inr example_face_inputs) 0.6) = Some 0.75
   \<and> quality_score (verify_document example_parse_date example_now
        (Inr example_document_inputs)) = Some 0.9
   \<and> indicators_of (verify_document example_parse_date example_now
        (Inr example_document_inputs)) = []
   \<and> calc_fraud_score [] = 0
   \<and> calc_overall_score 0.85 0.75 0.9 0 = 0.835
   \<and> determine_status 0.835 0.85 0.75 = ''approved''
   \<and> verify_kyc (Inr (detect_liveness (Inr scenario_inputs)))
        (Inr (verify_face_match (Inr example_face_inputs) 0.6))
        (Inr (verify_document example_parse_date example_now (Inr example_document_inputs)))
      = Inl (HTTPException 500 TypeError)"
  unfolding scenario_liveness_result example_face_result example_document_result
  by (simp add: verify_kyc_def fuse_def collect_indicators_def empty_dict_def dict_get_def
      calc_fraud_score_def calc_overall_score_def determine_status_def indicators_of_def)

text \<open>
  Claim C3, at a run the analyzers can produce: the liveness analyzer labels the selfie
  \<open>mask\<close> and the document has no indicator. The claim counts the label as one
  indicator (fraud score 0.1); the handler appends its four characters as four
  indicators and reports the fraud score 0.4.
\<close>

theorem C3_spoof_type_counted_per_character:
  "spoof_type (detect_liveness (Inr (example_inputs 0.5 0.2 0.5 0.05))) = Some (PyStr ''mask'')
   \<and> indicators_of (verify_document example_parse_date example_now
        (Inr example_document_inputs)) = []
   \<and> verify_kyc (Inr (detect_liveness (Inr (example_inputs 0.5 0.2 0.5 0.05))))
        (Inr (verify_face_match (Inr example_face_inputs) 0.6))
        (Inr (verify_document example_parse_date example_now (Inr example_document_inputs)))
      = Inr \<lparr>resp_liveness_score = 0.50375, resp_match_score = 0.75, resp_fraud_score = 0.4,
             resp_document_quality_score = 0.9, resp_overall_score = 0.691125,
             resp_status = ''manual_review'', resp_reasons = [''m'', ''a'', ''s'', ''k''],
             resp_confidence = 0.712\<rparr>"
  unfolding example_mask_result example_face_result example_document_result
  by (simp add: verify_kyc_def fuse_def collect_indicators_def empty_dict_def dict_get_def
      calc_fraud_score_def calc_overall_score_def determine_status_def validate_response_def
      in_unit_def indicators_of_def Let_def)

text \<open>
  Claim C4. When the three analyzer tasks return, the value under \<^verbatim>\<open>spoof_type\<close> is
  passed to \<^verbatim>\<open>extend\<close> as it is. If it is \<^verbatim>\<open>None\<close> the request ends with the
  error 500 and no response. If it is a string \<open>s\<close> and the document indicators are the
  list \<open>ds\<close>, the indicators are the characters of \<open>s\<close>, one by one, followed by \<open>ds\<close>;
  the fraud score is \<open>min ((length s + length ds) / 10) 1\<close>; every response carries
  both; and a response is produced when the scores read lie in the unit interval.
\<close>

theorem C4_spoof_type_extended_directly:
  "(spoof_type lr = Some PyNone \<longrightarrow>
      verify_kyc (Inr lr) (Inr fr) (Inr dr) = Inl (HTTPException 500 TypeError))
   \<and> (spoof_type lr = Some (PyStr s)
        \<and> dict_get (fraud_indicators dr) (PyList []) = PyList ds \<longrightarrow>
      collect_indicators lr dr = Inr (map (\<lambda>c. [c]) s @ ds)
      \<and> length (map (\<lambda>c. [c]) s @ ds) = length s + length ds
      \<and> calc_fraud_score (map (\<lambda>c. [c]) s @ ds) = min (real (length s + length ds) / 10) 1
      \<and> (\<forall>resp. verify_kyc (Inr lr) (Inr fr) (Inr dr) = Inr resp \<longrightarrow>
            resp_reasons resp = map (\<lambda>c. [c]) s @ ds
            \<and> resp_fraud_score resp = min (real (length s + length ds) / 10) 1)
      \<and> (in_unit (dict_get (liveness_score lr) 0) \<and> in_unit (dict_get (match_score fr) 0)
          \<and> in_unit (dict_get (quality_score dr) 0)
          \<and> in_unit (min (dict_get (confidence lr) 0) (dict_get (confidence fr) 0)) \<longrightarrow>
          (\<exists>resp. verify_kyc (Inr lr) (Inr fr) (Inr dr) = Inr resp)))"
proof -
  have a: "verify_kyc (Inr lr) (Inr fr) (Inr dr) = Inl (HTTPException 500 TypeError)"
    if "spoof_type lr = Some PyNone"
    using that by (simp add: verify_kyc_def fuse_def collect_indicators_def dict_get_def)
  have b: "collect_indicators lr dr = Inr (map (\<lambda>c. [c]) s @ ds)
      \<and> length (map (\<lambda>c. [c]) s @ ds) = length s + length ds
      \<and> calc_fraud_score (map (\<lambda>c. [c]) s @ ds) = min (real (length s + length ds) / 10) 1
      \<and> (\<forall>resp. verify_kyc (Inr lr) (Inr fr) (Inr dr) = Inr resp \<longrightarrow>
            resp_reasons resp = map (\<lambda>c. [c]) s @ ds
            \<and> resp_fraud_score resp = min (real (length s + length ds) / 10) 1)
      \<and> (in_unit (dict_get (liveness_score lr) 0) \<and> in_unit (dict_get (match_score fr) 0)
          \<and> in_unit (dict_get (quality_score dr) 0)
          \<and> in_unit (min (dict_get (confidence lr) 0) (dict_get (confidence fr) 0)) \<longrightarrow>
          (\<exists>resp. verify_kyc (Inr lr) (Inr fr) (Inr dr) = Inr resp))"
    if s: "spoof_type lr = Some (PyStr s)"
      and d: "dict_get (fraud_indicators dr) (PyList []) = PyList ds"
  proof -
    have c: "collect_indicators lr dr = Inr (map (\<lambda>c. [c]) s @ ds)"
      using s d by (simp add: collect_indicators_def dict_get_def)
    have n: "calc_fraud_score (map (\<lambda>c. [c]) s @ ds) = min (real (length s + length ds) / 10) 1"
      by (simp add: calc_fraud_score_def)
    have r: "resp_reasons resp = map (\<lambda>c. [c]) s @ ds
        \<and> resp_fraud_score resp = min (real (length s + length ds) / 10) 1"
      if v: "verify_kyc (Inr lr) (Inr fr) (Inr dr) = Inr resp" for resp
    proof -
      from v have "fuse lr fr dr = Inr resp"
        by (simp add: verify_kyc_def split: sum.splits)
      from fuse_response [OF this] c n show ?thesis by auto
    qed
    have e: "\<exists>resp. verify_kyc (Inr lr) (Inr fr) (Inr dr) = Inr resp"
      if u: "in_unit (dict_get (liveness_score lr) 0)" "in_unit (dict_get (match_score fr) 0)"
        "in_unit (dict_get (quality_score dr) 0)"
        "in_unit (min (dict_get (confidence lr) 0) (dict_get (confidence fr) 0))"
    proof -
      from fuse_returns [OF c u] obtain resp where "fuse lr fr dr = Inr resp"
        by blast
      then show ?thesis by (simp add: verify_kyc_def)
    qed
    from c n r e show ?thesis by simp
  qed
  from a b show ?thesis by blast
qed

text \<open>
  Claim C4, at two runs of the analyzers: a selfie without spoof label ends the request
  with the error 500, and the label \<open>mask\<close> gives the four indicators \<open>m\<close>, \<open>a\<close>, \<open>s\<close>,
  \<open>k\<close> and the fraud score 0.4.
\<close>

theorem C4_spoof_type_extended_directly_witness:
  "verify_kyc (Inr (detect_liveness (Inr (example_inputs 0.9 0.7 0.9 0.05))))
      (Inr (verify_face_match (Inr example_face_inputs) 0.6))
      (Inr (verify_document example_parse_date example_now (Inr example_document_inputs)))
     = Inl (HTTPException 500 TypeError)
   \<and> (\<exists>resp. verify_kyc (Inr (detect_liveness (Inr (example_inputs 0.5 0.2 0.5 0.05))))
         (Inr (verify_face_match (Inr example_face_inputs) 0.6))
         (Inr (verify_document example_parse_date example_now (Inr example_document_inputs)))
        = Inr resp
      \<and> resp_reasons resp = [''m'', ''a'', ''s'', ''k'']
      \<and> resp_fraud_score resp = 0.4)"
proof -
  let ?live = "detect_liveness (Inr (example_inputs 0.9 0.7 0.9 0.05))"
  let ?mask = "detect_liveness (Inr (example_inputs 0.5 0.2 0.5 0.05))"
  let ?face = "verify_face_match (Inr example_face_inputs) 0.6"
  let ?doc = "verify_document example_parse_date example_now (Inr example_document_inputs)"
  have a: "verify_kyc (Inr ?live) (Inr ?face) (Inr ?doc) = Inl (HTTPException 500 TypeError)"
    using C4_spoof_type_extended_directly [of ?live ?face ?doc] example_live_result
    by (simp add: empty_dict_def)
  have pre: "spoof_type ?mask = Some (PyStr ''mask'')
      \<and> dict_get (fraud_indicators ?doc) (PyList []) = PyList []"
    unfolding example_mask_result example_document_result
    by (simp add: empty_dict_def dict_get_def)
  have rng: "in_unit (dict_get (liveness_score ?mask) 0) \<and> in_unit (dict_get (match_score ?face) 0)
      \<and> in_unit (dict_get (quality_score ?doc) 0)
      \<and> in_unit (min (dict_get (confidence ?mask) 0) (dict_get (confidence ?face) 0))"
    unfolding example_mask_result example_face_result example_document_result
    by (simp add: empty_dict_def dict_get_def in_unit_def)
  note c4 = C4_spoof_type_extended_directly [of ?mask ?face ?doc "''mask''" "[]"]
  from c4 pre rng obtain resp where r: "verify_kyc (Inr ?mask) (Inr ?face) (Inr ?doc) = Inr resp"
    by blast
  with c4 pre have "resp_reasons resp = map (\<lambda>c. [c]) ''mask'' @ []
      \<and> resp_fraud_score resp = min (real (length ''mask'' + length ([] :: string list)) / 10) 1"
    by blast
  then have "resp_reasons resp = [''m'', ''a'', ''s'', ''k''] \<and> resp_fraud_score resp = 0.4"
    by simp
  with a r show ?thesis by blast
qed

text \<open>
  Claim C5, at a run in which the face-match task raises: its result is replaced by the
  degraded dictionary (match score 0, no confidence key so that 0 is read,
  \<open>verification_failed\<close> among the indicators), but the liveness analyzer found no spoof,
  its \<^verbatim>\<open>spoof_type\<close> is \<^verbatim>\<open>None\<close>, and the request ends with the error 500 instead of a
  response.
\<close>

theorem C5_degraded_substitution_request_fails:
  "handle_exception (Inl (PyException ''face model failed'')) = degraded_result
   \<and> dict_get (match_score degraded_result) 0 = 0
   \<and> dict_get (confidence degraded_result) 0 = 0
   \<and> ''verification_failed'' \<in> set (indicators_of degraded_result)
   \<and> verify_kyc (Inr (detect_liveness (Inr (example_inputs 0.9 0.7 0.9 0.05))))
        (Inl (PyException ''face model failed''))
        (Inr (verify_document example_parse_date example_now (Inr example_document_inputs)))
      = Inl (HTTPException 500 TypeError)"
  unfolding example_live_result example_document_result
  by (simp add: verify_kyc_def fuse_def collect_indicators_def empty_dict_def dict_get_def
      degraded_result_def indicators_of_def)

section \<open>The liveness analyzer: claims C2 and C8\<close>





text \<open>
  Claim C8. The spoof label is chosen by the first rule that applies, in this order:
  \<open>printed_photo\<close> when edge and texture are both below 0.3, \<open>screen_replay\<close> when
  reflection is above 0.1, \<open>mask\<close> when colour is below 0.3, \<open>3d_mask\<close> when texture
  and colour are both above 0.8, and no label otherwise. For edge 0.2, texture 0.2,
  reflection 0.05 and colour 0.9 the label is \<open>printed_photo\<close>.
\<close>

theorem C8_spoof_type_priority:
  "(edge < 0.3 \<and> texture < 0.3 \<longrightarrow>
      detect_spoof_type texture color edge reflection = Some ''printed_photo'')
   \<and> (\<not> (edge < 0.3 \<and> texture < 0.3) \<and> reflection > 0.1 \<longrightarrow>
      detect_spoof_type texture color edge reflection = Some ''screen_replay'')
   \<and> (\<not> (edge < 0.3 \<and> texture < 0.3) \<and> \<not> reflection > 0.1 \<and> color < 0.3 \<longrightarrow>
      detect_spoof_type texture color edge reflection = Some ''mask'')
   \<and> (\<not> (edge < 0.3 \<and> texture < 0.3) \<and> \<not> reflection > 0.1 \<and> \<not> color < 0.3
        \<and> texture > 0.8 \<and> color > 0.8 \<longrightarrow>
      detect_spoof_type texture color edge reflection = Some ''3d_mask'')
   \<and> (\<not> (edge < 0.3 \<and> texture < 0.3) \<and> \<not> reflection > 0.1 \<and> \<not> color < 0.3
        \<and> \<not> (texture > 0.8 \<and> color > 0.8) \<longrightarrow>
      detect_spoof_type texture color edge reflection = None)
   \<and> detect_spoof_type 0.2 0.9 0.2 0.05 = Some ''printed_photo''
   \<and> detect_spoof_type 0.2 0.9 0.2 0.05 \<noteq> Some ''mask''"
  by (simp add: detect_spoof_type_def)

text \<open>
  Claim C8, at one input for each rule; the first one also has a reflection above the
  threshold and a low colour score, and is still labelled \<open>printed_photo\<close>.
\<close>

theorem C8_spoof_type_priority_witness:
  "detect_spoof_type 0.2 0.2 0.2 0.5 = Some ''printed_photo''
   \<and> detect_spoof_type 0.5 0.2 0.5 0.5 = Some ''screen_replay''
   \<and> detect_spoof_type 0.5 0.2 0.5 0.05 = Some ''mask''
   \<and> detect_spoof_type 0.9 0.9 0.5 0.05 = Some ''3d_mask''
   \<and> detect_spoof_type 0.5 0.5 0.5 0.05 = None
   \<and> detect_spoof_type 0.2 0.9 0.2 0.05 = Some ''printed_photo''"
  using C8_spoof_type_priority [of "0.2" "0.2" "0.2" "0.5"]
    C8_spoof_type_priority [of "0.5" "0.5" "0.2" "0.5"]
    C8_spoof_type_priority [of "0.5" "0.5" "0.2" "0.05"]
    C8_spoof_type_priority [of "0.5" "0.9" "0.9" "0.05"]
    C8_spoof_type_priority [of "0.5" "0.5" "0.5" "0.05"]
  by simp

section \<open>Confidence of the two ensembles: claim C9\<close>

lemma mean_constant:
  assumes "xs \<noteq> []" and "\<forall>x \<in> set xs. x = c"
  shows "mean xs = c"
proof -
  have "xs = replicate (length xs) c"
    using assms(2) by (simp add: replicate_length_same)
  then have "sum_list xs = real (length xs) * c"
    by (metis sum_list_replicate)
  moreover have "real (length xs) \<noteq> 0"
    using assms(1) by simp
  ultimately show ?thesis
    by (simp add: mean_def)
qed

lemma np_var_constant:
  assumes "xs \<noteq> []" and "\<forall>x \<in> set xs. x = c"
  shows "np_var xs = 0"
proof -
  have m: "mean xs = c"
    by (rule mean_constant [OF assms])
  have "sum_list (map (\<lambda>x. (x - c)\<^sup>2) xs) = 0"
    using assms(2) by (induction xs) auto
  then have "mean (map (\<lambda>x. (x - c)\<^sup>2) xs) = 0"
    by (simp add: mean_def)
  then show ?thesis
    unfolding np_var_def m .
qed

lemma calculate_confidence_formula:
  "calculate_confidence scores = 1 - min (5 * np_var scores) 1"
  by (simp add: calculate_confidence_def mult.commute)

text \<open>
  Claim C9, as amended. For a non-empty list of scores the confidence of
  \<^verbatim>\<open>_calculate_confidence\<close> is \<open>1 - min (5 * variance) 1\<close>, and it is 1 when all scores
  are equal (a single score included). The liveness analyzer reports this value for its
  five scores. The anti-spoof module does not: the confidence it reports is the mean of
  the scores of its methods.
\<close>

theorem C9_confidence_amended:
  "(scores \<noteq> [] \<longrightarrow> calculate_confidence scores = 1 - min (5 * np_var scores) 1)
   \<and> (scores \<noteq> [] \<and> (\<forall>x \<in> set scores. x = c) \<longrightarrow> calculate_confidence scores = 1)
   \<and> confidence (detect_liveness (Inr i)) = Some (1 - min (5 * np_var (liveness_scores i)) 1)
   \<and> as_confidence (detect_spoof set_order results) = mean (map score results)"
proof -
  have "calculate_confidence scores = 1" if "scores \<noteq> []" and "\<forall>x \<in> set scores. x = c"
    using np_var_constant [OF that] by (simp add: calculate_confidence_formula)
  then show ?thesis
    by (simp add: calculate_confidence_formula empty_dict_def detect_spoof_def Let_def)
qed

text \<open>
  Claim C9 as stated fails for the anti-spoof module: when its five methods all return
  the score 0, the scores are equal and the formula gives 1, but the module reports the
  confidence 0.
\<close>

theorem C9_confidence_counterexample:
  "as_confidence (detect_spoof [] fallback_results) = 0
   \<and> 1 - min (5 * np_var (map score fallback_results)) 1 = 1"
  by (simp add: detect_spoof_def fallback_results_def Let_def mean_def np_var_def)

text \<open>Claim C9, as amended, at equal scores and at a run of the anti-spoof module.\<close>

theorem C9_confidence_amended_witness:
  "calculate_confidence [0.5, 0.5, 0.5] = 1
   \<and> calculate_confidence [0.5] = 1
   \<and> confidence (detect_liveness (Inr (example_inputs 0.5 0.5 0.5 0.5))) = Some 1
   \<and> as_confidence (detect_spoof [] flagged_results) = 0.34"
proof -
  let ?i = "example_inputs 0.5 0.5 0.5 0.5"
  have s: "liveness_scores ?i = [0.5, 0.5, 0.5, 0.5, 0.5]"
    by (simp add: liveness_scores_def example_inputs_def challenge_score_of_def truthy_def)
  have h: "liveness_scores ?i \<noteq> [] \<and> (\<forall>x \<in> set (liveness_scores ?i). x = 0.5)"
    unfolding s by simp
  have "calculate_confidence (liveness_scores ?i) = 1
      \<and> confidence (detect_liveness (Inr ?i))
          = Some (1 - min (5 * np_var (liveness_scores ?i)) 1)
      \<and> calculate_confidence (liveness_scores ?i) = 1 - min (5 * np_var (liveness_scores ?i)) 1"
    using C9_confidence_amended [of "liveness_scores ?i" "0.5" ?i "[]" flagged_results] h
    by blast
  then have l: "confidence (detect_liveness (Inr ?i)) = Some 1"
    by simp
  show ?thesis
    using C9_confidence_amended [of "[0.5, 0.5, 0.5]" "0.5" ?i "[]" flagged_results]
      C9_confidence_amended [of "[0.5]" "0.5" ?i "[]" flagged_results] l
    by (simp add: flagged_results_def mean_def)
qed

section \<open>The aggregate label of the anti-spoof module: claim C10\<close>

lemma py_max_from_mem: "py_max_from key b xs \<in> set (b # xs)"
  by (induction xs arbitrary: b) auto

lemma py_max_from_greatest: "y \<in> set (b # xs) \<Longrightarrow> key y \<le> key (py_max_from key b xs)"
proof (induction xs arbitrary: b y)
  case Nil
  then show ?case by simp
next
  case (Cons x xs)
  let ?b = "if key b < key x then x else b"
  have step: "py_max_from key b (x # xs) = py_max_from key ?b xs"
    by simp
  have b': "key ?b \<le> key (py_max_from key ?b xs)"
    by (rule Cons.IH) simp
  from Cons.prems consider "y = b" | "y = x" | "y \<in> set xs"
    by auto
  then show ?case
  proof cases
    case 1
    then show ?thesis using b' unfolding step by (auto split: if_splits)
  next
    case 2
    then show ?thesis using b' unfolding step by (auto split: if_splits)
  next
    case 3
    then have "key y \<le> key (py_max_from key ?b xs)"
      by (intro Cons.IH) simp
    then show ?thesis unfolding step .
  qed
qed

text \<open>
  For every iteration order of the set of flagged labels, the label returned is a
  flagged label of the greatest frequency.
\<close>

lemma most_common_most_frequent:
  assumes "set set_order = set indicators" and "indicators \<noteq> []"
  shows "\<exists>l. most_common set_order indicators = Some l \<and> l \<in> set indicators
     \<and> (\<forall>l'. count_list indicators l' \<le> count_list indicators l)"
proof -
  from assms have "set_order \<noteq> []" by auto
  then obtain x xs where so: "set_order = x # xs"
    by (cases set_order) auto
  let ?r = "py_max_from (count_list indicators) x xs"
  have m: "most_common set_order indicators = Some ?r"
    using assms(2) by (simp add: most_common_def so)
  have i: "?r \<in> set indicators"
    using py_max_from_mem [of "count_list indicators" x xs] assms(1) so by auto
  have "count_list indicators l' \<le> count_list indicators ?r" for l'
  proof (cases "l' \<in> set indicators")
    case True
    then have "l' \<in> set (x # xs)" using assms(1) so by simp
    then show ?thesis by (rule py_max_from_greatest)
  next
    case False
    then have "count_list indicators l' = 0"
      by (simp only: count_list_0_iff not_False_eq_True)
    then show ?thesis by simp
  qed
  with m i show ?thesis by blast
qed

text \<open>
  Claim C10, at a run in which the print method (score 0.7) and the screen method
  (score 0.6) both flag a spoof. Each label occurs once; the claim picks
  \<open>printed_photo\<close>, the first in detector order. The module returns that label when
  the set of labels is iterated in that order, and \<open>screen_replay\<close> when it is
  iterated in the other order: the same outcomes give two different labels. Without
  flagged outcome the label is \<^verbatim>\<open>None\<close>, as claimed.
\<close>

theorem C10_aggregate_label_follows_set_order:
  "as_indicators (detect_spoof [''printed_photo'', ''screen_replay''] flagged_results)
     = [''printed_photo'', ''screen_replay'']
   \<and> spec_aggregate_label [''printed_photo'', ''screen_replay''] = Some ''printed_photo''
   \<and> as_spoof_type (detect_spoof [''printed_photo'', ''screen_replay''] flagged_results)
     = Some ''printed_photo''
   \<and> as_spoof_type (detect_spoof [''screen_replay'', ''printed_photo''] flagged_results)
     = Some ''screen_replay''
   \<and> as_spoof_type (detect_spoof [] fallback_results) = None"
  by (simp add: detect_spoof_def flagged_results_def fallback_results_def Let_def
      most_common_def spec_aggregate_label_def)

section \<open>Validity of a document: claim C7\<close>

lemma required_field_missing_iff:
  "required_field_missing data t \<longleftrightarrow>
     (\<exists>fields. document_patterns t = Some fields
        \<and> ((''name'' \<in> set fields \<and> data ''name'' = None)
           \<or> (''document_number'' \<in> set fields \<and> data ''document_number'' = None)))"
  by (auto simp: required_field_missing_def split: option.splits)

lemma future_date_of_birth_iff:
  "future_date_of_birth parse_date now data \<longleftrightarrow>
     (\<exists>s dob. data ''date_of_birth'' = Some s \<and> parse_date s = Some dob \<and> now < dob)"
  by (auto simp: future_date_of_birth_def split: option.splits)

text \<open>
  Claim C7, as amended. A document is valid exactly when no critical indicator
  (\<open>expired_document\<close>, \<open>missing_document_number\<close>, \<open>missing_name\<close>,
  \<open>possible_tampering\<close>) is present, the quality score is not below 0.4, neither
  \<open>name\<close> nor \<open>document_number\<close> is absent while listed among the fields of the
  document type, the date of birth (when one was extracted and can be parsed) is not in
  the future, and there are at most two indicators.
\<close>

theorem C7_validate_document_amended:
  "validate_document parse_date now data inds q t \<longleftrightarrow>
     set inds \<inter> {''expired_document'', ''missing_document_number'', ''missing_name'',
                  ''possible_tampering''} = {}
     \<and> \<not> q < 0.4
     \<and> (\<forall>fields. document_patterns t = Some fields \<longrightarrow>
           (''name'' \<in> set fields \<longrightarrow> data ''name'' \<noteq> None)
           \<and> (''document_number'' \<in> set fields \<longrightarrow> data ''document_number'' \<noteq> None))
     \<and> (\<forall>s dob. data ''date_of_birth'' = Some s \<and> parse_date s = Some dob \<longrightarrow> dob \<le> now)
     \<and> length inds \<le> 2"
proof -
  have c: "(\<exists>indicator \<in> set critical_indicators. indicator \<in> set inds) \<longleftrightarrow>
      set inds \<inter> {''expired_document'', ''missing_document_number'', ''missing_name'',
                  ''possible_tampering''} \<noteq> {}"
    by (auto simp: critical_indicators_def)
  have r: "required_field_missing data t \<longleftrightarrow>
      \<not> (\<forall>fields. document_patterns t = Some fields \<longrightarrow>
           (''name'' \<in> set fields \<longrightarrow> data ''name'' \<noteq> None)
           \<and> (''document_number'' \<in> set fields \<longrightarrow> data ''document_number'' \<noteq> None))"
    unfolding required_field_missing_iff by auto
  have f: "future_date_of_birth parse_date now data \<longleftrightarrow>
      \<not> (\<forall>s dob. data ''date_of_birth'' = Some s \<and> parse_date s = Some dob \<longrightarrow> dob \<le> now)"
    unfolding future_date_of_birth_iff by (auto simp: not_le)
  show ?thesis
    unfolding validate_document_def c r f by auto
qed

text \<open>
  Claim C7 as stated fails: a document of unknown type (no required field) with quality
  0.9 and no indicator, whose date of birth lies in the future, meets every condition of
  the claim and is declared invalid.
\<close>

theorem C7_validate_document_counterexample:
  "set [] \<inter> set critical_indicators = {}
   \<and> \<not> (0.9 :: real) < 0.4
   \<and> document_patterns ''unknown'' = None
   \<and> \<not> required_field_missing future_birth_data ''unknown''
   \<and> length ([] :: string list) \<le> 2
   \<and> validate_document example_parse_date example_now future_birth_data [] 0.9 ''unknown''
       = False"
  by (simp add: validate_document_def critical_indicators_def required_field_missing_def
      document_patterns_def future_date_of_birth_def future_birth_data_def
      example_parse_date_def example_now_def)

text \<open>
  Claim C7, as amended, at an identity card with one minor indicator (valid) and at the
  document with the future date of birth (invalid).
\<close>

theorem C7_validate_document_amended_witness:
  "validate_document example_parse_date example_now [''name'' \<mapsto> ''JANE DOE''] [''blurry_image'']
     0.9 ''id_card''
   \<and> \<not> validate_document example_parse_date example_now future_birth_data [] 0.9 ''unknown''"
proof -
  have "document_patterns ''id_card'' =
      Some [''id_number'', ''name'', ''dob'', ''expiry'', ''address'']"
    by (simp add: document_patterns_def)
  then have a: "validate_document example_parse_date example_now [''name'' \<mapsto> ''JANE DOE'']
      [''blurry_image''] 0.9 ''id_card''"
    using C7_validate_document_amended [of example_parse_date example_now
        "[''name'' \<mapsto> ''JANE DOE'']" "[''blurry_image'']" "0.9" "''id_card''"]
    by simp
  have "future_birth_data ''date_of_birth'' = Some ''01/01/2090''
      \<and> example_parse_date ''01/01/2090'' = Some 20900101 \<and> \<not> (20900101 :: int) \<le> example_now"
    by (simp add: future_birth_data_def example_parse_date_def example_now_def)
  then have b: "\<not> validate_document example_parse_date example_now future_birth_data [] 0.9
      ''unknown''"
    using C7_validate_document_amended [of example_parse_date example_now future_birth_data
        "[]" "0.9" "''unknown''"]
    by blast
  from a b show ?thesis by blast
qed

section \<open>Results that carry an error: claim C6\<close>

text \<open>
  Claim C6, as amended. A liveness or face-match result that carries an error has the
  score 0 and the confidence 0 and has no indicator list at all. A document result that
  carries an error has neither a quality score nor a confidence (the fusion step reads 0
  for both) and its indicators contain \<open>verification_failed\<close>.
\<close>

theorem C6_error_results_amended:
  "(error (detect_liveness li) \<noteq> None \<longrightarrow>
      liveness_score (detect_liveness li) = Some 0
      \<and> confidence (detect_liveness li) = Some 0
      \<and> fraud_indicators (detect_liveness li) = None)
   \<and> (error (verify_face_match fi threshold) \<noteq> None \<longrightarrow>
      match_score (verify_face_match fi threshold) = Some 0
      \<and> confidence (verify_face_match fi threshold) = Some 0
      \<and> fraud_indicators (verify_face_match fi threshold) = None)
   \<and> (error (verify_document parse_date now di) \<noteq> None \<longrightarrow>
      dict_get (quality_score (verify_document parse_date now di)) 0 = 0
      \<and> dict_get (confidence (verify_document parse_date now di)) 0 = 0
      \<and> ''verification_failed'' \<in> set (indicators_of (verify_document parse_date now di)))"
proof -
  have l: "error (detect_liveness li) \<noteq> None \<longrightarrow>
      liveness_score (detect_liveness li) = Some 0
      \<and> confidence (detect_liveness li) = Some 0
      \<and> fraud_indicators (detect_liveness li) = None"
    by (cases li) (simp_all add: empty_dict_def)
  have f: "error (verify_face_match fi threshold) \<noteq> None \<longrightarrow>
      match_score (verify_face_match fi threshold) = Some 0
      \<and> confidence (verify_face_match fi threshold) = Some 0
      \<and> fraud_indicators (verify_face_match fi threshold) = None"
    by (cases fi)
      (auto simp: empty_dict_def face_error_def Let_def split: option.splits)
  have d: "error (verify_document parse_date now di) \<noteq> None \<longrightarrow>
      dict_get (quality_score (verify_document parse_date now di)) 0 = 0
      \<and> dict_get (confidence (verify_document parse_date now di)) 0 = 0
      \<and> ''verification_failed'' \<in> set (indicators_of (verify_document parse_date now di))"
    by (cases di) (simp_all add: empty_dict_def dict_get_def indicators_of_def Let_def)
  from l f d show ?thesis by blast
qed

text \<open>
  Claim C6 as stated fails: the liveness result returned after an exception, and the
  face-match result returned when no face is found, carry an error and no
  \<open>verification_failed\<close> indicator.
\<close>

theorem C6_error_results_counterexample:
  "error (detect_liveness (Inl ''OpenCV error'')) = Some ''OpenCV error''
   \<and> ''verification_failed'' \<notin> set (indicators_of (detect_liveness (Inl ''OpenCV error'')))
   \<and> error (verify_face_match (Inr (example_face_inputs\<lparr>selfie_faces := []\<rparr>)) 0.6)
       = Some ''No faces detected in one or both images''
   \<and> ''verification_failed'' \<notin> set (indicators_of
         (verify_face_match (Inr (example_face_inputs\<lparr>selfie_faces := []\<rparr>)) 0.6))"
  by (simp add: empty_dict_def dict_get_def indicators_of_def face_error_def
      example_face_inputs_def)

text \<open>Claim C6, as amended, at the error results of the three analyzers.\<close>

theorem C6_error_results_amended_witness:
  "liveness_score (detect_liveness (Inl ''OpenCV error'')) = Some 0
   \<and> confidence (detect_liveness (Inl ''OpenCV error'')) = Some 0
   \<and> fraud_indicators (detect_liveness (Inl ''OpenCV error'')) = None
   \<and> match_score (verify_face_match (Inl ''OpenCV error'') 0.6) = Some 0
   \<and> fraud_indicators (verify_face_match (Inl ''OpenCV error'') 0.6) = None
   \<and> ''verification_failed'' \<in> set (indicators_of
         (verify_document example_parse_date example_now (Inl ''OCR error'')))"
  using C6_error_results_amended [of "Inl ''OpenCV error''" "Inl ''OpenCV error''" "0.6"
      example_parse_date example_now "Inl ''OCR error''"]
  by (simp add: empty_dict_def face_error_def)

end
